theory Spec2Isabelle
  imports Complex_Main "HOL-Library.AList"
begin

section \<open>Levelized cost engines (packages/lcoe)\<close>

text \<open>
  A shallow embedding of \<^verbatim>\<open>packages/lcoe/models.py\<close>, \<^verbatim>\<open>core.py\<close> and
  \<^verbatim>\<open>sensitivity.py\<close>. Python floats are modelled as reals (rounding, infinities and
  NaN are outside the model), Python ints as \<open>int\<close>. Every exception the code can raise
  is a value of \<open>error\<close>, and a function that can raise returns \<open>error + 'a\<close>.
\<close>

subsection \<open>Exceptions\<close>

datatype error = ZeroDivisionError | IndexError | TypeError | AttributeError | KeyError | ValueError

definition bind_err :: "error + 'a \<Rightarrow> ('a \<Rightarrow> error + 'b) \<Rightarrow> error + 'b" where
  "bind_err m f = (case m of Inl e \<Rightarrow> Inl e | Inr v \<Rightarrow> f v)"

text \<open>Float division \<^verbatim>\<open>a / b\<close>: a zero divisor raises.\<close>

definition py_div :: "real \<Rightarrow> real \<Rightarrow> error + real" where
  "py_div a b = (if b = 0 then Inl ZeroDivisionError else Inr (a / b))"

text \<open>
  \<^verbatim>\<open>x ** n\<close> for a float \<open>x\<close> and an int \<open>n\<close>: a negative exponent is the reciprocal
  of the positive power, and raises on a zero base.
\<close>

definition py_pow :: "real \<Rightarrow> int \<Rightarrow> error + real" where
  "py_pow x n =
     (if 0 \<le> n then Inr (x ^ nat n)
      else if x = 0 then Inl ZeroDivisionError
      else Inr (1 / x ^ nat (- n)))"

text \<open>\<^verbatim>\<open>range(n)\<close> for an int \<open>n\<close>: empty when \<open>n \<le> 0\<close>.\<close>

definition py_range :: "int \<Rightarrow> nat list" where
  "py_range n = [0..<nat n]"

text \<open>\<^verbatim>\<open>int(x)\<close> for a float \<open>x\<close>: truncation towards zero.\<close>

definition py_int :: "real \<Rightarrow> int" where
  "py_int x = (if 0 \<le> x then \<lfloor>x\<rfloor> else \<lceil>x\<rceil>)"

subsection \<open>Data model (models.py)\<close>

datatype UseCase = RESIDENTIAL | COMMERCIAL | UTILITY

datatype TechnologyType = PV | BATTERY | WIND | HYDRO | THERMAL

record FinancingParameters =
  discount_rate :: real
  inflation_rate :: real
  tax_rate :: real
  debt_fraction :: real
  debt_interest_rate :: real
  federal_itc :: real
  state_rebate :: real
  depreciation_schedule :: "real list"

definition effective_discount_rate :: "FinancingParameters \<Rightarrow> real" where
  "effective_discount_rate f = discount_rate f * (1 - tax_rate f * debt_fraction f)"

record DegradationModel =
  annual_degradation_rate :: real
  degradation_type :: string
  step_years :: "int list"
  step_rates :: "real list"

text \<open>
  The loop of the step variant: \<open>i\<close> is the index \<^verbatim>\<open>enumerate\<close> supplies, and
  \<^verbatim>\<open>self.step_rates[i]\<close> raises IndexError when the list has no element \<open>i\<close>.
\<close>

fun step_loop :: "real list \<Rightarrow> int \<Rightarrow> nat \<Rightarrow> int list \<Rightarrow> real \<Rightarrow> error + real" where
  "step_loop rates year i [] factor = Inr factor"
| "step_loop rates year i (step_year # rest) factor =
     (if year \<ge> step_year then
        (if i < length rates
         then step_loop rates year (Suc i) rest (factor * (1 - rates ! i))
         else Inl IndexError)
      else step_loop rates year (Suc i) rest factor)"

definition performance_factor :: "DegradationModel \<Rightarrow> int \<Rightarrow> error + real" where
  "performance_factor m year =
     (if degradation_type m = ''linear''
        then Inr (max 0 (1 - (of_int year * annual_degradation_rate m)))
      else if degradation_type m = ''exponential''
        then py_pow (1 - annual_degradation_rate m) year
      else if degradation_type m = ''step''
        then step_loop (step_rates m) year 0 (step_years m) 1
      else Inr 1)"

record LCOEInputs =
  capex_per_kw :: real
  system_size_kw :: real
  fixed_om_per_kw_year :: real
  variable_om_per_mwh :: real
  fuel_cost_per_mwh :: real
  capacity_factor :: real
  system_lifetime_years :: int
  degradation :: DegradationModel
  financing :: FinancingParameters
  technology_type :: TechnologyType
  use_case :: UseCase

record LCOEResult =
  lcoe_usd_per_mwh :: real
  lcoe_usd_per_kwh :: real
  capex_component :: real
  opex_component :: real
  fuel_component :: real
  financing_component :: real
  total_capex :: real
  total_opex_npv :: real
  total_energy_mwh :: real
  capacity_factor_actual :: real
  p10_lcoe :: "real option"
  p50_lcoe :: "real option"
  p90_lcoe :: "real option"

subsection \<open>LCOECalculator (core.py)\<close>

fun npv_series_loop :: "real \<Rightarrow> real \<Rightarrow> real \<Rightarrow> nat list \<Rightarrow> real \<Rightarrow> error + real" where
  "npv_series_loop annual_amount dr ir [] npv = Inr npv"
| "npv_series_loop annual_amount dr ir (year # rest) npv =
     (let inflated_amount = annual_amount * ((1 + ir) ^ year)
      in case py_div inflated_amount ((1 + dr) ^ year) of
           Inl e \<Rightarrow> Inl e
         | Inr discounted_amount \<Rightarrow>
             npv_series_loop annual_amount dr ir rest (npv + discounted_amount))"

definition calculate_npv_series :: "real \<Rightarrow> int \<Rightarrow> real \<Rightarrow> real \<Rightarrow> error + real" where
  "calculate_npv_series annual_amount years dr ir =
     npv_series_loop annual_amount dr ir (py_range years) 0"

definition lcoe_calculate_total_capex :: "LCOEInputs \<Rightarrow> real" where
  "lcoe_calculate_total_capex inputs =
     (let base_capex = capex_per_kw inputs * system_size_kw inputs;
          itc_benefit = base_capex * federal_itc (financing inputs);
          rebate = state_rebate (financing inputs) * system_size_kw inputs;
          net_capex = base_capex - itc_benefit - rebate
      in max 0 net_capex)"

definition lcoe_calculate_annual_energy :: "LCOEInputs \<Rightarrow> real" where
  "lcoe_calculate_annual_energy inputs =
     system_size_kw inputs * capacity_factor inputs * 8760 / 1000"

fun lifetime_energy_loop ::
  "DegradationModel \<Rightarrow> real \<Rightarrow> real \<Rightarrow> nat list \<Rightarrow> real \<Rightarrow> error + real" where
  "lifetime_energy_loop deg annual_energy_mwh dr [] total_energy = Inr total_energy"
| "lifetime_energy_loop deg annual_energy_mwh dr (year # rest) total_energy =
     (case performance_factor deg (int year) of
        Inl e \<Rightarrow> Inl e
      | Inr pf \<Rightarrow>
          (let year_energy = annual_energy_mwh * pf
           in case py_div year_energy ((1 + dr) ^ year) of
                Inl e \<Rightarrow> Inl e
              | Inr discounted_energy \<Rightarrow>
                  lifetime_energy_loop deg annual_energy_mwh dr rest
                    (total_energy + discounted_energy)))"

definition lcoe_calculate_lifetime_energy :: "LCOEInputs \<Rightarrow> real \<Rightarrow> error + real" where
  "lcoe_calculate_lifetime_energy inputs annual_energy_mwh =
     lifetime_energy_loop (degradation inputs) annual_energy_mwh
       (effective_discount_rate (financing inputs))
       (py_range (system_lifetime_years inputs)) 0"

definition lcoe_calculate_opex_npv :: "LCOEInputs \<Rightarrow> error + real" where
  "lcoe_calculate_opex_npv inputs =
     (let annual_fixed_om = fixed_om_per_kw_year inputs * system_size_kw inputs;
          annual_variable_om = variable_om_per_mwh inputs * lcoe_calculate_annual_energy inputs;
          annual_opex = annual_fixed_om + annual_variable_om
      in calculate_npv_series annual_opex (system_lifetime_years inputs)
           (effective_discount_rate (financing inputs)) (inflation_rate (financing inputs)))"

definition lcoe_calculate_fuel_npv :: "LCOEInputs \<Rightarrow> real \<Rightarrow> error + real" where
  "lcoe_calculate_fuel_npv inputs annual_energy_mwh =
     (if fuel_cost_per_mwh inputs \<le> 0 then Inr 0
      else (let annual_fuel_cost = fuel_cost_per_mwh inputs * annual_energy_mwh
            in calculate_npv_series annual_fuel_cost (system_lifetime_years inputs)
                 (effective_discount_rate (financing inputs))
                 (inflation_rate (financing inputs))))"

definition lcoe_calculate_financing_cost :: "LCOEInputs \<Rightarrow> real \<Rightarrow> error + real" where
  "lcoe_calculate_financing_cost inputs capex =
     (let debt_amount = capex * debt_fraction (financing inputs);
          annual_interest = debt_amount * debt_interest_rate (financing inputs)
      in calculate_npv_series annual_interest (system_lifetime_years inputs)
           (effective_discount_rate (financing inputs)) 0)"

definition lcoe_calculate :: "LCOEInputs \<Rightarrow> error + LCOEResult" where
  "lcoe_calculate inputs =
     (let capex = lcoe_calculate_total_capex inputs;
          annual_energy_mwh = lcoe_calculate_annual_energy inputs
      in bind_err (lcoe_calculate_lifetime_energy inputs annual_energy_mwh) (\<lambda>lifetime_energy_mwh.
         bind_err (lcoe_calculate_opex_npv inputs) (\<lambda>opex_npv.
         bind_err (lcoe_calculate_fuel_npv inputs annual_energy_mwh) (\<lambda>total_fuel_npv.
         bind_err (lcoe_calculate_financing_cost inputs capex) (\<lambda>financing_cost.
         let total_costs = capex + opex_npv + total_fuel_npv + financing_cost;
             per_mwh = (if lifetime_energy_mwh > 0 then total_costs / lifetime_energy_mwh else 0);
             per_kwh = per_mwh / 1000;
             capex_c = (if lifetime_energy_mwh > 0 then capex / lifetime_energy_mwh else 0);
             opex_c = (if lifetime_energy_mwh > 0 then opex_npv / lifetime_energy_mwh else 0);
             fuel_c = (if lifetime_energy_mwh > 0 then total_fuel_npv / lifetime_energy_mwh else 0);
             financing_c = (if lifetime_energy_mwh > 0 then financing_cost / lifetime_energy_mwh else 0)
         in bind_err (py_div annual_energy_mwh (system_size_kw inputs * 8.76)) (\<lambda>cf_actual.
            Inr \<lparr> lcoe_usd_per_mwh = per_mwh,
                  lcoe_usd_per_kwh = per_kwh,
                  capex_component = capex_c,
                  opex_component = opex_c,
                  fuel_component = fuel_c,
                  financing_component = financing_c,
                  total_capex = capex,
                  total_opex_npv = opex_npv,
                  total_energy_mwh = lifetime_energy_mwh,
                  capacity_factor_actual = cf_actual,
                  p10_lcoe = None, p50_lcoe = None, p90_lcoe = None \<rparr>))))))"

subsection \<open>Storage data model (models.py)\<close>

record LoadProfile =
  annual_energy_kwh :: real
  peak_demand_kw :: real
  load_factor :: real
  seasonal_variation :: real
  time_of_use_profile :: "(string \<times> real) list"

text \<open>
  \<open>cycle_life\<close> is declared \<^verbatim>\<open>int\<close>; the engine only divides it, where an int and the
  float of the same value agree, and the sensitivity analyzer stores floats in it, so it
  is a real here. \<open>calendar_life_years\<close> is passed to \<^verbatim>\<open>range\<close> and has to be an int.
\<close>

record LCOSInputs =
  capex_per_kwh :: real
  system_size_kwh :: real
  power_rating_kw :: real
  fixed_om_per_kwh_year :: real
  variable_om_per_cycle :: real
  round_trip_efficiency :: real
  cycles_per_year :: real
  cycle_life :: real
  calendar_life_years :: int
  depth_of_discharge :: real
  capacity_fade_per_year :: real
  efficiency_fade_per_cycle :: real
  financing :: FinancingParameters
  load_profile :: LoadProfile
  technology_type :: TechnologyType
  use_case :: UseCase

record LCOSResult =
  lcos_usd_per_mwh :: real
  lcos_usd_per_kwh :: real
  capex_component :: real
  opex_component :: real
  replacement_component :: real
  financing_component :: real
  total_throughput_mwh :: real
  effective_cycles :: real
  end_of_life_capacity :: real
  average_efficiency :: real
  total_capex :: real
  total_opex_npv :: real
  replacement_cost_npv :: real
  p10_lcos :: "real option"
  p50_lcos :: "real option"
  p90_lcos :: "real option"

subsection \<open>LCOSCalculator (core.py)\<close>

definition lcos_calculate_total_capex :: "LCOSInputs \<Rightarrow> real" where
  "lcos_calculate_total_capex inputs =
     (let base_capex = capex_per_kwh inputs * system_size_kwh inputs;
          itc_benefit = base_capex * federal_itc (LCOSInputs.financing inputs);
          rebate = state_rebate (LCOSInputs.financing inputs) * system_size_kwh inputs;
          net_capex = base_capex - itc_benefit - rebate
      in max 0 net_capex)"

fun lifetime_throughput_loop ::
  "LCOSInputs \<Rightarrow> real \<Rightarrow> real \<Rightarrow> nat list \<Rightarrow> real \<Rightarrow> error + real" where
  "lifetime_throughput_loop inputs annual_throughput_base dr [] total_throughput =
     Inr total_throughput"
| "lifetime_throughput_loop inputs annual_throughput_base dr (year # rest) total_throughput =
     (let capacity_fac = max 0.5 (1 - (real year * capacity_fade_per_year inputs));
          total_cycles = real year * cycles_per_year inputs;
          efficiency_factor =
            max 0.7 (round_trip_efficiency inputs
                     - (total_cycles * efficiency_fade_per_cycle inputs))
      in case py_div efficiency_factor (round_trip_efficiency inputs) of
           Inl e \<Rightarrow> Inl e
         | Inr efficiency_ratio \<Rightarrow>
             (let year_throughput = annual_throughput_base * capacity_fac * efficiency_ratio
              in case py_div year_throughput ((1 + dr) ^ year) of
                   Inl e \<Rightarrow> Inl e
                 | Inr discounted_throughput \<Rightarrow>
                     lifetime_throughput_loop inputs annual_throughput_base dr rest
                       (total_throughput + discounted_throughput)))"

definition lcos_calculate_lifetime_throughput :: "LCOSInputs \<Rightarrow> error + real" where
  "lcos_calculate_lifetime_throughput inputs =
     bind_err (py_div (cycle_life inputs) (cycles_per_year inputs)) (\<lambda>cycle_limited_years.
       let actual_lifetime = min cycle_limited_years (real_of_int (calendar_life_years inputs));
           usable_capacity_kwh = system_size_kwh inputs * depth_of_discharge inputs;
           annual_throughput_base =
             usable_capacity_kwh * cycles_per_year inputs * round_trip_efficiency inputs / 1000
       in lifetime_throughput_loop inputs annual_throughput_base
            (effective_discount_rate (LCOSInputs.financing inputs))
            (py_range (py_int actual_lifetime)) 0)"

definition lcos_calculate_opex_npv :: "LCOSInputs \<Rightarrow> error + real" where
  "lcos_calculate_opex_npv inputs =
     (let annual_fixed_om = fixed_om_per_kwh_year inputs * system_size_kwh inputs;
          annual_variable_om = variable_om_per_cycle inputs * cycles_per_year inputs;
          annual_opex = annual_fixed_om + annual_variable_om
      in calculate_npv_series annual_opex (calendar_life_years inputs)
           (effective_discount_rate (LCOSInputs.financing inputs))
           (inflation_rate (LCOSInputs.financing inputs)))"

definition lcos_calculate_replacement_cost :: "LCOSInputs \<Rightarrow> error + real" where
  "lcos_calculate_replacement_cost inputs =
     bind_err (py_div (cycle_life inputs) (cycles_per_year inputs)) (\<lambda>cycle_limited_years.
       if cycle_limited_years < real_of_int (calendar_life_years inputs) then
         (let replacement_year = py_int cycle_limited_years;
              replacement_cost = capex_per_kwh inputs * system_size_kwh inputs * 0.7;
              dr = effective_discount_rate (LCOSInputs.financing inputs)
          in bind_err (py_pow (1 + dr) replacement_year) (\<lambda>discount_factor.
               py_div replacement_cost discount_factor))
       else Inr 0)"

definition lcos_calculate_financing_cost :: "LCOSInputs \<Rightarrow> real \<Rightarrow> error + real" where
  "lcos_calculate_financing_cost inputs capex =
     (let debt_amount = capex * debt_fraction (LCOSInputs.financing inputs);
          annual_interest = debt_amount * debt_interest_rate (LCOSInputs.financing inputs)
      in calculate_npv_series annual_interest (calendar_life_years inputs)
           (effective_discount_rate (LCOSInputs.financing inputs)) 0)"

definition lcos_calculate_effective_cycles :: "LCOSInputs \<Rightarrow> error + real" where
  "lcos_calculate_effective_cycles inputs =
     bind_err (py_div (cycle_life inputs) (cycles_per_year inputs)) (\<lambda>cycle_limited_years.
       let actual_lifetime = min cycle_limited_years (real_of_int (calendar_life_years inputs))
       in Inr (actual_lifetime * cycles_per_year inputs))"

definition lcos_calculate_end_of_life_capacity :: "LCOSInputs \<Rightarrow> error + real" where
  "lcos_calculate_end_of_life_capacity inputs =
     bind_err (py_div (cycle_life inputs) (cycles_per_year inputs)) (\<lambda>cycle_limited_years.
       let actual_lifetime = min cycle_limited_years (real_of_int (calendar_life_years inputs))
       in Inr (max 0.5 (1 - (actual_lifetime * capacity_fade_per_year inputs))))"

definition lcos_calculate_average_efficiency :: "LCOSInputs \<Rightarrow> error + real" where
  "lcos_calculate_average_efficiency inputs =
     bind_err (py_div (cycle_life inputs) (cycles_per_year inputs)) (\<lambda>cycle_limited_years.
       let actual_lifetime = min cycle_limited_years (real_of_int (calendar_life_years inputs));
           total_cycles = actual_lifetime * cycles_per_year inputs;
           end_efficiency =
             max 0.7 (round_trip_efficiency inputs
                      - (total_cycles * efficiency_fade_per_cycle inputs))
       in Inr ((round_trip_efficiency inputs + end_efficiency) / 2))"

definition lcos_calculate :: "LCOSInputs \<Rightarrow> error + LCOSResult" where
  "lcos_calculate inputs =
     (let capex = lcos_calculate_total_capex inputs
      in bind_err (lcos_calculate_lifetime_throughput inputs) (\<lambda>lifetime_throughput_mwh.
         bind_err (lcos_calculate_opex_npv inputs) (\<lambda>opex_npv.
         bind_err (lcos_calculate_replacement_cost inputs) (\<lambda>replacement_npv.
         bind_err (lcos_calculate_financing_cost inputs capex) (\<lambda>financing_cost.
         let total_costs = capex + opex_npv + replacement_npv + financing_cost;
             per_mwh = (if lifetime_throughput_mwh > 0
                        then total_costs / lifetime_throughput_mwh else 0);
             per_kwh = per_mwh / 1000
         in bind_err (lcos_calculate_effective_cycles inputs) (\<lambda>eff_cycles.
            bind_err (lcos_calculate_end_of_life_capacity inputs) (\<lambda>eol_capacity.
            bind_err (lcos_calculate_average_efficiency inputs) (\<lambda>avg_efficiency.
            let capex_c = (if lifetime_throughput_mwh > 0
                           then capex / lifetime_throughput_mwh else 0);
                opex_c = (if lifetime_throughput_mwh > 0
                          then opex_npv / lifetime_throughput_mwh else 0);
                replacement_c = (if lifetime_throughput_mwh > 0
                                 then replacement_npv / lifetime_throughput_mwh else 0);
                financing_c = (if lifetime_throughput_mwh > 0
                               then financing_cost / lifetime_throughput_mwh else 0)
            in Inr \<lparr> lcos_usd_per_mwh = per_mwh,
                     lcos_usd_per_kwh = per_kwh,
                     capex_component = capex_c,
                     opex_component = opex_c,
                     replacement_component = replacement_c,
                     financing_component = financing_c,
                     total_throughput_mwh = lifetime_throughput_mwh,
                     effective_cycles = eff_cycles,
                     end_of_life_capacity = eol_capacity,
                     average_efficiency = avg_efficiency,
                     total_capex = capex,
                     total_opex_npv = opex_npv,
                     replacement_cost_npv = replacement_npv,
                     p10_lcos = None, p50_lcos = None, p90_lcos = None \<rparr>))))))))"

subsection \<open>Dataclass defaults (models.py)\<close>

definition default_financing :: FinancingParameters where
  "default_financing =
     \<lparr> discount_rate = 0.07, inflation_rate = 0.025, tax_rate = 0.21,
       debt_fraction = 0.6, debt_interest_rate = 0.05, federal_itc = 0.30,
       state_rebate = 0.0,
       depreciation_schedule = [0.2, 0.32, 0.192, 0.1152, 0.1152, 0.0576] \<rparr>"

definition default_degradation :: DegradationModel where
  "default_degradation =
     \<lparr> annual_degradation_rate = 0.005, degradation_type = ''linear'',
       step_years = [], step_rates = [] \<rparr>"

definition default_load_profile :: LoadProfile where
  "default_load_profile =
     \<lparr> annual_energy_kwh = 10000, peak_demand_kw = 5.0, load_factor = 0.3,
       seasonal_variation = 0.2, time_of_use_profile = [] \<rparr>"

definition default_lcoe_inputs :: LCOEInputs where
  "default_lcoe_inputs =
     \<lparr> capex_per_kw = 1500.0, system_size_kw = 100.0, fixed_om_per_kw_year = 15.0,
       variable_om_per_mwh = 0.0, fuel_cost_per_mwh = 0.0, capacity_factor = 0.25,
       system_lifetime_years = 25, degradation = default_degradation,
       financing = default_financing, technology_type = PV, use_case = RESIDENTIAL \<rparr>"

definition default_lcos_inputs :: LCOSInputs where
  "default_lcos_inputs =
     \<lparr> capex_per_kwh = 400.0, system_size_kwh = 100.0, power_rating_kw = 50.0,
       fixed_om_per_kwh_year = 5.0, variable_om_per_cycle = 0.01,
       round_trip_efficiency = 0.90, cycles_per_year = 365.0, cycle_life = 4000,
       calendar_life_years = 15, depth_of_discharge = 0.90,
       capacity_fade_per_year = 0.02, efficiency_fade_per_cycle = 0.00001,
       financing = default_financing, load_profile = default_load_profile,
       technology_type = BATTERY, use_case = RESIDENTIAL \<rparr>"

subsection \<open>The performance metrics as the specification words them\<close>

text \<open>
  The specification computes the reported metrics at the floored effective lifetime.
  These definitions follow its words, for comparison with the code above.
\<close>

definition spec_effective_lifetime :: "LCOSInputs \<Rightarrow> real" where
  "spec_effective_lifetime inputs =
     min (cycle_life inputs / cycles_per_year inputs) (real_of_int (calendar_life_years inputs))"

definition spec_effective_cycles :: "LCOSInputs \<Rightarrow> real" where
  "spec_effective_cycles inputs =
     of_int \<lfloor>spec_effective_lifetime inputs\<rfloor> * cycles_per_year inputs"

definition spec_end_of_life_capacity :: "LCOSInputs \<Rightarrow> real" where
  "spec_end_of_life_capacity inputs =
     max 0.5 (1 - of_int \<lfloor>spec_effective_lifetime inputs\<rfloor> * capacity_fade_per_year inputs)"

definition spec_average_efficiency :: "LCOSInputs \<Rightarrow> real" where
  "spec_average_efficiency inputs =
     (round_trip_efficiency inputs
      + max 0.7 (round_trip_efficiency inputs
                 - of_int \<lfloor>spec_effective_lifetime inputs\<rfloor> * cycles_per_year inputs
                     * efficiency_fade_per_cycle inputs)) / 2"

section \<open>Sensitivity and Monte Carlo analyzers (sensitivity.py)\<close>

subsection \<open>Objects and the store\<close>

text \<open>
  The analyzers copy the caller's inputs object and write attributes of the copy by
  name, so here objects live in a store and are addressed. An inputs object
  (\<^verbatim>\<open>LCOEInputs\<close>, \<^verbatim>\<open>LCOSInputs\<close>) is its attribute dictionary, in insertion order; an
  attribute holds a value or a reference to a nested dataclass instance
  (\<^verbatim>\<open>FinancingParameters\<close>, \<^verbatim>\<open>DegradationModel\<close>, \<^verbatim>\<open>LoadProfile\<close>), whose attributes hold
  values only. Enum members are their string values. Only instance attributes are
  modelled, not methods or the attributes of built-in values, and values are immutable.

  An address is an index into the list of its kind. As in Python, a reference always
  points to an object: the store only grows, and references are created by allocation.
\<close>

datatype pyval =
    PyInt int | PyFloat real | PyStr string
  | PyInts "int list" | PyFloats "real list" | PyDict "(string \<times> real) list"

datatype field = Prim pyval | Ref nat

type_synonym nested_obj = "(string \<times> pyval) list"

type_synonym inputs_obj = "(string \<times> field) list"

record store =
  inputs_objs :: "inputs_obj list"
  nested_objs :: "nested_obj list"

text \<open>What a variable of the traversal loops can hold.\<close>

datatype target = InputsObj nat | NestedObj nat | Val pyval

definition py_getattr :: "store \<Rightarrow> target \<Rightarrow> string \<Rightarrow> error + target" where
  "py_getattr h obj attr =
     (case obj of
        InputsObj a \<Rightarrow>
          (case map_of (inputs_objs h ! a) attr of
             None \<Rightarrow> Inl AttributeError
           | Some (Prim v) \<Rightarrow> Inr (Val v)
           | Some (Ref n) \<Rightarrow> Inr (NestedObj n))
      | NestedObj n \<Rightarrow>
          (case map_of (nested_objs h ! n) attr of
             None \<Rightarrow> Inl AttributeError
           | Some v \<Rightarrow> Inr (Val v))
      | Val v \<Rightarrow> Inl AttributeError)"

text \<open>
  \<^verbatim>\<open>setattr\<close> replaces the attribute or adds it to the object's dictionary; a built-in
  value has no attribute that can be set.
\<close>

definition py_setattr :: "store \<Rightarrow> target \<Rightarrow> string \<Rightarrow> pyval \<Rightarrow> error + store" where
  "py_setattr h obj attr v =
     (case obj of
        InputsObj a \<Rightarrow>
          Inr (h\<lparr>inputs_objs :=
                   (inputs_objs h)[a := AList.update attr (Prim v) (inputs_objs h ! a)]\<rparr>)
      | NestedObj n \<Rightarrow>
          Inr (h\<lparr>nested_objs :=
                   (nested_objs h)[n := AList.update attr v (nested_objs h ! n)]\<rparr>)
      | Val _ \<Rightarrow> Inl AttributeError)"

text \<open>\<^verbatim>\<open>attr_path.split('.')\<close>.\<close>

fun split_dot :: "string \<Rightarrow> string list" where
  "split_dot [] = [[]]"
| "split_dot (c # cs) =
     (if c = CHR ''.'' then [] # split_dot cs
      else (case split_dot cs of [] \<Rightarrow> [[c]] | w # ws \<Rightarrow> (c # w) # ws))"

text \<open>\<^verbatim>\<open>for attr in attrs: value = getattr(value, attr)\<close>.\<close>

fun getattr_loop :: "store \<Rightarrow> target \<Rightarrow> string list \<Rightarrow> error + target" where
  "getattr_loop h obj [] = Inr obj"
| "getattr_loop h obj (attr # attrs) =
     (case py_getattr h obj attr of
        Inl e \<Rightarrow> Inl e
      | Inr v \<Rightarrow> getattr_loop h v attrs)"

definition get_nested_attribute :: "store \<Rightarrow> target \<Rightarrow> string \<Rightarrow> error + target" where
  "get_nested_attribute h obj attr_path = getattr_loop h obj (split_dot attr_path)"

text \<open>
  \<^verbatim>\<open>copy.deepcopy\<close> of an inputs object: every nested instance is copied to a new address
  (once, the memo maps old addresses to new ones), the values are kept, and the copy of
  the inputs object itself is allocated last.
\<close>

fun deepcopy_fields ::
  "(nat \<times> nat) list \<Rightarrow> (string \<times> field) list \<Rightarrow> nested_obj list
     \<Rightarrow> (string \<times> field) list \<times> nested_obj list" where
  "deepcopy_fields memo [] nh = ([], nh)"
| "deepcopy_fields memo ((k, Prim v) # fs) nh =
     (case deepcopy_fields memo fs nh of (fs', nh') \<Rightarrow> ((k, Prim v) # fs', nh'))"
| "deepcopy_fields memo ((k, Ref n) # fs) nh =
     (case map_of memo n of
        Some n' \<Rightarrow>
          (case deepcopy_fields memo fs nh of (fs', nh') \<Rightarrow> ((k, Ref n') # fs', nh'))
      | None \<Rightarrow>
          (case deepcopy_fields ((n, length nh) # memo) fs (nh @ [nh ! n]) of
             (fs', nh') \<Rightarrow> ((k, Ref (length nh)) # fs', nh')))"

definition deepcopy :: "store \<Rightarrow> nat \<Rightarrow> nat \<times> store" where
  "deepcopy h a =
     (case deepcopy_fields [] (inputs_objs h ! a) (nested_objs h) of
        (fs', nh') \<Rightarrow>
          (length (inputs_objs h),
           \<lparr> inputs_objs = inputs_objs h @ [fs'], nested_objs = nh' \<rparr>))"

text \<open>
  The functions below that write return the store with their result; an exception leaves
  the store as it was when it was raised.
\<close>

definition copy_inputs_with_param ::
  "store \<Rightarrow> nat \<Rightarrow> string \<Rightarrow> pyval \<Rightarrow> (error + nat) \<times> store" where
  "copy_inputs_with_param h inputs param_path new_value =
     (case deepcopy h inputs of
        (new_inputs, h1) \<Rightarrow>
          (let attrs = split_dot param_path
           in case getattr_loop h1 (InputsObj new_inputs) (butlast attrs) of
                Inl e \<Rightarrow> (Inl e, h1)
              | Inr obj \<Rightarrow>
                  (case py_setattr h1 obj (last attrs) new_value of
                     Inl e \<Rightarrow> (Inl e, h1)
                   | Inr h2 \<Rightarrow> (Inr new_inputs, h2))))"

subsection \<open>The engines on stored objects\<close>

text \<open>
  The engines read the attributes of the object they are given. A numeric attribute may
  hold an int or a float. An attribute that is missing raises AttributeError; an attribute
  of another kind than the dataclass declares raises TypeError, as a float passed to
  \<^verbatim>\<open>range\<close> does (duck typing beyond int for float is not modelled). A degradation tag that
  is not a string equals none of the three tags. The attributes the engines never read
  (technology, use case, power rating, load profile) are set to the dataclass defaults.
\<close>

definition num_val :: "pyval \<Rightarrow> error + real" where
  "num_val v = (case v of PyInt n \<Rightarrow> Inr (of_int n) | PyFloat x \<Rightarrow> Inr x | _ \<Rightarrow> Inl TypeError)"

definition nested_num :: "nested_obj \<Rightarrow> string \<Rightarrow> error + real" where
  "nested_num obj k = (case map_of obj k of None \<Rightarrow> Inl AttributeError | Some v \<Rightarrow> num_val v)"

definition inputs_num :: "inputs_obj \<Rightarrow> string \<Rightarrow> error + real" where
  "inputs_num obj k =
     (case map_of obj k of
        None \<Rightarrow> Inl AttributeError
      | Some (Prim v) \<Rightarrow> num_val v
      | Some (Ref n) \<Rightarrow> Inl TypeError)"

definition inputs_int :: "inputs_obj \<Rightarrow> string \<Rightarrow> error + int" where
  "inputs_int obj k =
     (case map_of obj k of
        None \<Rightarrow> Inl AttributeError
      | Some (Prim (PyInt n)) \<Rightarrow> Inr n
      | Some _ \<Rightarrow> Inl TypeError)"

definition inputs_ref :: "inputs_obj \<Rightarrow> string \<Rightarrow> error + nat" where
  "inputs_ref obj k =
     (case map_of obj k of
        None \<Rightarrow> Inl AttributeError
      | Some (Ref n) \<Rightarrow> Inr n
      | Some (Prim v) \<Rightarrow> Inl AttributeError)"

definition load_financing :: "nested_obj \<Rightarrow> error + FinancingParameters" where
  "load_financing obj =
     (if map_of obj ''effective_discount_rate'' \<noteq> None then Inl TypeError
      else
        bind_err (nested_num obj ''discount_rate'') (\<lambda>dr.
        bind_err (nested_num obj ''inflation_rate'') (\<lambda>ir.
        bind_err (nested_num obj ''tax_rate'') (\<lambda>tr.
        bind_err (nested_num obj ''debt_fraction'') (\<lambda>df.
        bind_err (nested_num obj ''debt_interest_rate'') (\<lambda>di.
        bind_err (nested_num obj ''federal_itc'') (\<lambda>itc.
        bind_err (nested_num obj ''state_rebate'') (\<lambda>sr.
        Inr \<lparr> discount_rate = dr, inflation_rate = ir, tax_rate = tr,
              debt_fraction = df, debt_interest_rate = di, federal_itc = itc,
              state_rebate = sr,
              depreciation_schedule =
                (case map_of obj ''depreciation_schedule'' of
                   Some (PyFloats xs) \<Rightarrow> xs | _ \<Rightarrow> []) \<rparr>))))))))"

definition load_degradation :: "nested_obj \<Rightarrow> error + DegradationModel" where
  "load_degradation obj =
     (if map_of obj ''performance_factor'' \<noteq> None then Inl TypeError
      else
        bind_err (nested_num obj ''annual_degradation_rate'') (\<lambda>rate.
        bind_err (case map_of obj ''degradation_type'' of
                    None \<Rightarrow> Inl AttributeError
                  | Some (PyStr s) \<Rightarrow> Inr s
                  | Some _ \<Rightarrow> Inr []) (\<lambda>tag.
        bind_err (case map_of obj ''step_years'' of
                    None \<Rightarrow> Inl AttributeError
                  | Some (PyInts ys) \<Rightarrow> Inr ys
                  | Some _ \<Rightarrow> Inl TypeError) (\<lambda>ys.
        bind_err (case map_of obj ''step_rates'' of
                    None \<Rightarrow> Inl AttributeError
                  | Some (PyFloats rs) \<Rightarrow> Inr rs
                  | Some _ \<Rightarrow> Inl TypeError) (\<lambda>rs.
        Inr \<lparr> annual_degradation_rate = rate, degradation_type = tag,
              step_years = ys, step_rates = rs \<rparr>)))))"

definition load_lcoe_inputs :: "store \<Rightarrow> nat \<Rightarrow> error + LCOEInputs" where
  "load_lcoe_inputs h a =
     (let obj = inputs_objs h ! a
      in bind_err (inputs_num obj ''capex_per_kw'') (\<lambda>capex.
         bind_err (inputs_num obj ''system_size_kw'') (\<lambda>size.
         bind_err (inputs_num obj ''fixed_om_per_kw_year'') (\<lambda>fixed_om.
         bind_err (inputs_num obj ''variable_om_per_mwh'') (\<lambda>variable_om.
         bind_err (inputs_num obj ''fuel_cost_per_mwh'') (\<lambda>fuel.
         bind_err (inputs_num obj ''capacity_factor'') (\<lambda>cf.
         bind_err (inputs_int obj ''system_lifetime_years'') (\<lambda>life.
         bind_err (inputs_ref obj ''degradation'') (\<lambda>d.
         bind_err (load_degradation (nested_objs h ! d)) (\<lambda>deg.
         bind_err (inputs_ref obj ''financing'') (\<lambda>f.
         bind_err (load_financing (nested_objs h ! f)) (\<lambda>fin.
         Inr \<lparr> capex_per_kw = capex, system_size_kw = size,
               fixed_om_per_kw_year = fixed_om, variable_om_per_mwh = variable_om,
               fuel_cost_per_mwh = fuel, capacity_factor = cf,
               system_lifetime_years = life, degradation = deg, financing = fin,
               technology_type = PV, use_case = RESIDENTIAL \<rparr>))))))))))))"


text \<open>\<^verbatim>\<open>calculator.calculate(inputs).lcoe_usd_per_kwh\<close> and its LCOS counterpart.\<close>

definition lcoe_engine :: "store \<Rightarrow> nat \<Rightarrow> error + real" where
  "lcoe_engine h a =
     bind_err (load_lcoe_inputs h a) (\<lambda>inputs.
     bind_err (lcoe_calculate inputs) (\<lambda>r. Inr (lcoe_usd_per_kwh r)))"


subsection \<open>SensitivityAnalyzer\<close>

record SensitivityResult =
  parameter_name :: string
  base_value :: real
  low_value :: real
  high_value :: real
  base_result :: real
  low_result :: real
  high_result :: real
  sensitivity :: real
  elasticity :: real

text \<open>The operand of \<^verbatim>\<open>base_value * (1 - variation_percent)\<close> has to be a number.\<close>

definition as_number :: "target \<Rightarrow> error + real" where
  "as_number t = (case t of Val v \<Rightarrow> num_val v | _ \<Rightarrow> Inl TypeError)"

text \<open>
  The two metric lines. The slope is guarded by \<^verbatim>\<open>high_value != low_value\<close>; the
  elasticity is guarded by \<^verbatim>\<open>base_value != 0 and base_lcoe != 0\<close> and divides by
  \<^verbatim>\<open>(high_value - low_value) / base_value\<close>.
\<close>

definition sensitivity_metrics ::
  "real \<Rightarrow> real \<Rightarrow> real \<Rightarrow> real \<Rightarrow> real \<Rightarrow> real \<Rightarrow> error + real \<times> real" where
  "sensitivity_metrics base_val base_out low_val high_val low_out high_out =
     (let slope = (if high_val \<noteq> low_val
                   then (high_out - low_out) / (high_val - low_val) else 0)
      in bind_err
           (if base_val \<noteq> 0 \<and> base_out \<noteq> 0
            then py_div ((high_out - low_out) / base_out) ((high_val - low_val) / base_val)
            else Inr 0)
           (\<lambda>elast. Inr (slope, elast)))"

text \<open>The body of the \<^verbatim>\<open>try\<close> block for one parameter; \<open>calc\<close> is the engine.\<close>

definition sensitivity_step ::
  "(store \<Rightarrow> nat \<Rightarrow> error + real) \<Rightarrow> store \<Rightarrow> nat \<Rightarrow> real \<Rightarrow> real \<Rightarrow> string
     \<Rightarrow> (error + SensitivityResult) \<times> store" where
  "sensitivity_step calc h base_inputs base_out variation_percent param =
     (case bind_err (get_nested_attribute h (InputsObj base_inputs) param) as_number of
        Inl e \<Rightarrow> (Inl e, h)
      | Inr base_val \<Rightarrow>
          (let low_val = base_val * (1 - variation_percent);
               high_val = base_val * (1 + variation_percent)
           in case copy_inputs_with_param h base_inputs param (PyFloat low_val) of
                (Inl e, h1) \<Rightarrow> (Inl e, h1)
              | (Inr low_inputs, h1) \<Rightarrow>
                  (case calc h1 low_inputs of
                     Inl e \<Rightarrow> (Inl e, h1)
                   | Inr low_out \<Rightarrow>
                       (case copy_inputs_with_param h1 base_inputs param (PyFloat high_val) of
                          (Inl e, h2) \<Rightarrow> (Inl e, h2)
                        | (Inr high_inputs, h2) \<Rightarrow>
                            (case calc h2 high_inputs of
                               Inl e \<Rightarrow> (Inl e, h2)
                             | Inr high_out \<Rightarrow>
                                 (case sensitivity_metrics base_val base_out low_val high_val
                                         low_out high_out of
                                    Inl e \<Rightarrow> (Inl e, h2)
                                  | Inr (slope, elast) \<Rightarrow>
                                      (Inr \<lparr> parameter_name = param, base_value = base_val,
                                             low_value = low_val, high_value = high_val,
                                             base_result = base_out, low_result = low_out,
                                             high_result = high_out, sensitivity = slope,
                                             elasticity = elast \<rparr>, h2)))))))"

text \<open>
  The loop over the parameters: an exception in the body is logged and the parameter is
  skipped.
\<close>

fun sensitivity_loop ::
  "(store \<Rightarrow> nat \<Rightarrow> error + real) \<Rightarrow> nat \<Rightarrow> real \<Rightarrow> real \<Rightarrow> string list
     \<Rightarrow> SensitivityResult list \<Rightarrow> store \<Rightarrow> SensitivityResult list \<times> store" where
  "sensitivity_loop calc base_inputs base_out variation_percent [] results h = (results, h)"
| "sensitivity_loop calc base_inputs base_out variation_percent (param # rest) results h =
     (case sensitivity_step calc h base_inputs base_out variation_percent param of
        (Inl e, h') \<Rightarrow>
          sensitivity_loop calc base_inputs base_out variation_percent rest results h'
      | (Inr res, h') \<Rightarrow>
          sensitivity_loop calc base_inputs base_out variation_percent rest (results @ [res]) h')"

text \<open>
  \<^verbatim>\<open>sort(key=lambda x: abs(x.elasticity), reverse=True)\<close>: a stable descending sort.
  The base calculation is outside the \<^verbatim>\<open>try\<close> block, so its exception propagates.
\<close>

definition analyze_sensitivity ::
  "(store \<Rightarrow> nat \<Rightarrow> error + real) \<Rightarrow> string list \<Rightarrow> store \<Rightarrow> nat \<Rightarrow> string list option
     \<Rightarrow> real \<Rightarrow> (error + SensitivityResult list) \<times> store" where
  "analyze_sensitivity calc default_parameters h base_inputs parameters variation_percent =
     (let params = (case parameters of None \<Rightarrow> default_parameters | Some ps \<Rightarrow> ps)
      in case calc h base_inputs of
           Inl e \<Rightarrow> (Inl e, h)
         | Inr base_out \<Rightarrow>
             (case sensitivity_loop calc base_inputs base_out variation_percent params [] h of
                (results, h') \<Rightarrow>
                  (Inr (rev (sort_key (\<lambda>x. \<bar>elasticity x\<bar>) (rev results))), h')))"

definition analyze_lcoe_sensitivity ::
  "store \<Rightarrow> nat \<Rightarrow> string list option \<Rightarrow> real \<Rightarrow> (error + SensitivityResult list) \<times> store" where
  "analyze_lcoe_sensitivity =
     analyze_sensitivity lcoe_engine
       [''capex_per_kw'', ''capacity_factor'', ''system_lifetime_years'',
        ''fixed_om_per_kw_year'', ''financing.discount_rate'']"


subsection \<open>MonteCarloAnalyzer\<close>








text \<open>
  The frame condition: every object of \<open>h\<close> is in \<open>h'\<close> at its address, with the same
  attributes.
\<close>

definition unchanged :: "store \<Rightarrow> store \<Rightarrow> bool" where
  "unchanged h h' \<longleftrightarrow>
     take (length (inputs_objs h)) (inputs_objs h') = inputs_objs h
     \<and> take (length (nested_objs h)) (nested_objs h') = nested_objs h"

subsection \<open>A store holding the dataclass defaults\<close>

definition default_lcoe_store :: store where
  "default_lcoe_store =
     \<lparr> inputs_objs =
         [[(''capex_per_kw'', Prim (PyFloat 1500.0)),
           (''system_size_kw'', Prim (PyFloat 100.0)),
           (''fixed_om_per_kw_year'', Prim (PyFloat 15.0)),
           (''variable_om_per_mwh'', Prim (PyFloat 0.0)),
           (''fuel_cost_per_mwh'', Prim (PyFloat 0.0)),
           (''capacity_factor'', Prim (PyFloat 0.25)),
           (''system_lifetime_years'', Prim (PyInt 25)),
           (''degradation'', Ref 0),
           (''financing'', Ref 1),
           (''technology_type'', Prim (PyStr ''pv'')),
           (''use_case'', Prim (PyStr ''residential''))]],
       nested_objs =
         [[(''annual_degradation_rate'', PyFloat 0.005),
           (''degradation_type'', PyStr ''linear''),
           (''step_years'', PyInts []),
           (''step_rates'', PyFloats [])],
          [(''discount_rate'', PyFloat 0.07),
           (''inflation_rate'', PyFloat 0.025),
           (''tax_rate'', PyFloat 0.21),
           (''debt_fraction'', PyFloat 0.6),
           (''debt_interest_rate'', PyFloat 0.05),
           (''federal_itc'', PyFloat 0.30),
           (''state_rebate'', PyFloat 0.0),
           (''depreciation_schedule'', PyFloats [0.2, 0.32, 0.192, 0.1152, 0.1152, 0.0576])]] \<rparr>"




section \<open>Properties\<close>

subsection \<open>Exceptions and arithmetic\<close>

lemma bind_err_Inl [simp]: "bind_err (Inl e) f = Inl e"
  by (simp add: bind_err_def)

lemma bind_err_Inr [simp]: "bind_err (Inr v) f = f v"
  by (simp add: bind_err_def)

lemma bind_err_eq_Inr: "bind_err m f = Inr r \<longleftrightarrow> (\<exists>v. m = Inr v \<and> f v = Inr r)"
  by (cases m) simp_all

lemma py_range_nonpos [simp]: "n \<le> 0 \<Longrightarrow> py_range n = []"
  by (simp add: py_range_def)

lemma py_div_nonzero [simp]: "b \<noteq> 0 \<Longrightarrow> py_div a b = Inr (a / b)"
  by (simp add: py_div_def)

lemma py_div_zero [simp]: "py_div a 0 = Inl ZeroDivisionError"
  by (simp add: py_div_def)



lemma py_pow_ok: "x \<noteq> 0 \<Longrightarrow> \<exists>p. py_pow x n = Inr p \<and> p \<noteq> 0"
  by (simp add: py_pow_def)

subsection \<open>The annuity loop\<close>

lemma npv_series_loop_ok:
  "1 + dr \<noteq> 0 \<Longrightarrow> \<exists>v. npv_series_loop a dr ir ys acc = Inr v"
  by (induction ys arbitrary: acc) (simp_all add: Let_def)


lemma calculate_npv_series_ok:
  "1 + dr \<noteq> 0 \<Longrightarrow> \<exists>v. calculate_npv_series a years dr ir = Inr v"
  by (simp add: calculate_npv_series_def npv_series_loop_ok)


lemma calculate_npv_series_nonpos:
  "years \<le> 0 \<Longrightarrow> calculate_npv_series a years dr ir = Inr 0"
  by (simp add: calculate_npv_series_def)

subsection \<open>The step loop\<close>

lemma step_loop_ok:
  "length ys + i \<le> length rates \<Longrightarrow> \<exists>f. step_loop rates year i ys factor = Inr f"
  by (induction ys arbitrary: i factor) simp_all

lemma step_loop_index_error:
  "k < length ys \<Longrightarrow> length rates \<le> i + k \<Longrightarrow> ys ! k \<le> year \<Longrightarrow>
     step_loop rates year i ys factor = Inl IndexError"
proof (induction ys arbitrary: i k factor)
  case Nil
  then show ?case by simp
next
  case (Cons y ys)
  show ?case
  proof (cases k)
    case 0
    with Cons.prems show ?thesis by simp
  next
    case (Suc k')
    with Cons.prems have "k' < length ys" "length rates \<le> Suc i + k'" "ys ! k' \<le> year"
      by simp_all
    then have "\<And>factor'. step_loop rates year (Suc i) ys factor' = Inl IndexError"
      by (rule Cons.IH)
    then show ?thesis by simp
  qed
qed

lemma performance_factor_ok:
  assumes "degradation_type m = ''step'' \<longrightarrow> length (step_years m) \<le> length (step_rates m)"
    and "0 \<le> year"
  shows "\<exists>f. performance_factor m year = Inr f"
  using assms by (simp add: performance_factor_def py_pow_def step_loop_ok)

subsection \<open>The lifetime energy loop\<close>

lemma lifetime_energy_loop_ok:
  assumes "degradation_type m = ''step'' \<longrightarrow> length (step_years m) \<le> length (step_rates m)"
    and "1 + dr \<noteq> 0"
  shows "\<exists>v. lifetime_energy_loop m a dr ys acc = Inr v"
proof (induction ys arbitrary: acc)
  case Nil
  show ?case by simp
next
  case (Cons y ys)
  obtain f where "performance_factor m (int y) = Inr f"
    using performance_factor_ok [OF assms(1), of "int y"] by auto
  with Cons assms(2) show ?case by (simp add: Let_def)
qed


subsection \<open>The throughput loop\<close>

lemma lifetime_throughput_loop_ok:
  "round_trip_efficiency i \<noteq> 0 \<Longrightarrow> 1 + dr \<noteq> 0 \<Longrightarrow>
     \<exists>v. lifetime_throughput_loop i base dr ys acc = Inr v"
  by (induction ys arbitrary: acc) (simp_all add: Let_def)



subsection \<open>When the LCOE engine returns\<close>

lemma lcoe_calculate_ok:
  assumes size: "system_size_kw i \<noteq> 0"
    and dr: "1 + effective_discount_rate (LCOEInputs.financing i) \<noteq> 0"
    and step: "degradation_type (degradation i) = ''step'' \<longrightarrow>
                 length (step_years (degradation i)) \<le> length (step_rates (degradation i))"
  shows "\<exists>r. lcoe_calculate i = Inr r"
proof -
  obtain e where e: "lcoe_calculate_lifetime_energy i (lcoe_calculate_annual_energy i) = Inr e"
    unfolding lcoe_calculate_lifetime_energy_def
    using lifetime_energy_loop_ok [OF step dr] by blast
  obtain opex where opex: "lcoe_calculate_opex_npv i = Inr opex"
    unfolding lcoe_calculate_opex_npv_def Let_def
    using calculate_npv_series_ok [OF dr] by blast
  have "\<exists>fuel. lcoe_calculate_fuel_npv i (lcoe_calculate_annual_energy i) = Inr fuel"
    unfolding lcoe_calculate_fuel_npv_def Let_def
    using calculate_npv_series_ok [OF dr] by (cases "fuel_cost_per_mwh i \<le> 0") simp_all
  then obtain fuel where fuel: "lcoe_calculate_fuel_npv i (lcoe_calculate_annual_energy i) = Inr fuel"
    by blast
  obtain fin where fin: "lcoe_calculate_financing_cost i (lcoe_calculate_total_capex i) = Inr fin"
    unfolding lcoe_calculate_financing_cost_def Let_def
    using calculate_npv_series_ok [OF dr] by blast
  from size have "system_size_kw i * 8.76 \<noteq> 0" by simp
  then show ?thesis
    unfolding lcoe_calculate_def Let_def by (simp add: e opex fuel fin)
qed

lemma lcoe_calculate_nonpos_lifetime:
  assumes size: "system_size_kw i \<noteq> 0" and life: "system_lifetime_years i \<le> 0"
  shows "\<exists>r. lcoe_calculate i = Inr r \<and> total_energy_mwh r = 0 \<and> lcoe_usd_per_mwh r = 0
           \<and> lcoe_usd_per_kwh r = 0 \<and> LCOEResult.capex_component r = 0
           \<and> LCOEResult.opex_component r = 0 \<and> fuel_component r = 0
           \<and> LCOEResult.financing_component r = 0"
proof -
  have e: "lcoe_calculate_lifetime_energy i a = Inr 0" for a
    using life by (simp add: lcoe_calculate_lifetime_energy_def)
  have opex: "lcoe_calculate_opex_npv i = Inr 0"
    using life by (simp add: lcoe_calculate_opex_npv_def Let_def calculate_npv_series_nonpos)
  have fuel: "lcoe_calculate_fuel_npv i a = Inr 0" for a
    using life by (simp add: lcoe_calculate_fuel_npv_def Let_def calculate_npv_series_nonpos)
  have fin: "lcoe_calculate_financing_cost i c = Inr 0" for c
    using life by (simp add: lcoe_calculate_financing_cost_def Let_def calculate_npv_series_nonpos)
  from size have "system_size_kw i * 8.76 \<noteq> 0" by simp
  then show ?thesis
    unfolding lcoe_calculate_def Let_def by (simp add: e opex fuel fin)
qed



lemma default_lcoe_ok:
  "system_size_kw default_lcoe_inputs \<noteq> 0
   \<and> 1 + effective_discount_rate (LCOEInputs.financing default_lcoe_inputs) \<noteq> 0
   \<and> degradation_type (degradation default_lcoe_inputs) \<noteq> ''step''"
  by (simp add: default_lcoe_inputs_def default_financing_def default_degradation_def
      effective_discount_rate_def)

subsection \<open>When the LCOS engine returns\<close>

lemma lcos_replacement_ok:
  assumes "cycles_per_year i \<noteq> 0" and "1 + effective_discount_rate (LCOSInputs.financing i) \<noteq> 0"
  shows "\<exists>v. lcos_calculate_replacement_cost i = Inr v"
proof -
  let ?x = "1 + effective_discount_rate (LCOSInputs.financing i)"
  obtain p where "py_pow ?x (py_int (cycle_life i / cycles_per_year i)) = Inr p" "p \<noteq> 0"
    using py_pow_ok [OF assms(2)] by blast
  then show ?thesis
    using assms(1) by (simp add: lcos_calculate_replacement_cost_def Let_def)
qed

lemma lcos_calculate_ok:
  assumes cpy: "cycles_per_year i \<noteq> 0"
    and rte: "round_trip_efficiency i \<noteq> 0"
    and dr: "1 + effective_discount_rate (LCOSInputs.financing i) \<noteq> 0"
  shows "\<exists>r. lcos_calculate i = Inr r"
proof -
  obtain t where t: "lcos_calculate_lifetime_throughput i = Inr t"
    unfolding lcos_calculate_lifetime_throughput_def Let_def
    using lifetime_throughput_loop_ok [OF rte dr] cpy by (simp, blast)
  obtain opex where opex: "lcos_calculate_opex_npv i = Inr opex"
    unfolding lcos_calculate_opex_npv_def Let_def
    using calculate_npv_series_ok [OF dr] by blast
  obtain rep where rep: "lcos_calculate_replacement_cost i = Inr rep"
    using lcos_replacement_ok [OF cpy dr] by blast
  obtain fin where fin: "lcos_calculate_financing_cost i (lcos_calculate_total_capex i) = Inr fin"
    unfolding lcos_calculate_financing_cost_def Let_def
    using calculate_npv_series_ok [OF dr] by blast
  show ?thesis
    unfolding lcos_calculate_def Let_def
    using cpy by (simp add: t opex rep fin lcos_calculate_effective_cycles_def
        lcos_calculate_end_of_life_capacity_def lcos_calculate_average_efficiency_def)
qed

lemma lcos_calculate_cycles_nonzero:
  assumes "lcos_calculate i = Inr r"
  shows "cycles_per_year i \<noteq> 0"
proof
  assume "cycles_per_year i = 0"
  then have "lcos_calculate_lifetime_throughput i = Inl ZeroDivisionError"
    by (simp add: lcos_calculate_lifetime_throughput_def)
  then have "lcos_calculate i = Inl ZeroDivisionError"
    by (simp add: lcos_calculate_def Let_def)
  with assms show False by simp
qed

lemma lcos_metrics:
  assumes "lcos_calculate i = Inr r"
  shows "effective_cycles r
         = min (cycle_life i / cycles_per_year i) (real_of_int (calendar_life_years i))
             * cycles_per_year i
     \<and> end_of_life_capacity r
         = max 0.5 (1 - min (cycle_life i / cycles_per_year i) (real_of_int (calendar_life_years i))
                          * capacity_fade_per_year i)
     \<and> average_efficiency r
         = (round_trip_efficiency i
            + max 0.7 (round_trip_efficiency i
                - min (cycle_life i / cycles_per_year i) (real_of_int (calendar_life_years i))
                    * cycles_per_year i * efficiency_fade_per_cycle i)) / 2"
  using assms lcos_calculate_cycles_nonzero [OF assms]
  unfolding lcos_calculate_def Let_def bind_err_eq_Inr
  by (auto simp: lcos_calculate_effective_cycles_def
      lcos_calculate_end_of_life_capacity_def lcos_calculate_average_efficiency_def Let_def)

lemma default_lcos_ok: "\<exists>r. lcos_calculate default_lcos_inputs = Inr r"
  by (rule lcos_calculate_ok)
     (simp_all add: default_lcos_inputs_def default_financing_def effective_discount_rate_def)


subsection \<open>The component breakdown\<close>

lemma lcoe_components_sum:
  "lcoe_calculate i = Inr r \<Longrightarrow>
     LCOEResult.capex_component r + LCOEResult.opex_component r + fuel_component r
       + LCOEResult.financing_component r = lcoe_usd_per_mwh r"
  unfolding lcoe_calculate_def Let_def bind_err_eq_Inr
  by (cases "0 < total_energy_mwh r") (auto simp: add_divide_distrib)

lemma lcoe_components_degenerate:
  "lcoe_calculate i = Inr r \<Longrightarrow> total_energy_mwh r \<le> 0 \<Longrightarrow>
     lcoe_usd_per_mwh r = 0 \<and> LCOEResult.capex_component r = 0
     \<and> LCOEResult.opex_component r = 0 \<and> fuel_component r = 0
     \<and> LCOEResult.financing_component r = 0"
  unfolding lcoe_calculate_def Let_def bind_err_eq_Inr
  by auto

lemma lcos_components_sum:
  "lcos_calculate i = Inr r \<Longrightarrow>
     capex_component r + opex_component r + replacement_component r
       + financing_component r = lcos_usd_per_mwh r"
  unfolding lcos_calculate_def Let_def bind_err_eq_Inr
  by (cases "0 < total_throughput_mwh r") (auto simp: add_divide_distrib)

lemma lcos_components_degenerate:
  "lcos_calculate i = Inr r \<Longrightarrow> total_throughput_mwh r \<le> 0 \<Longrightarrow>
     lcos_usd_per_mwh r = 0 \<and> capex_component r = 0 \<and> opex_component r = 0
     \<and> replacement_component r = 0 \<and> financing_component r = 0"
  unfolding lcos_calculate_def Let_def bind_err_eq_Inr
  by auto

text \<open>
  C1. Whenever \<open>lcoe_calculate\<close> or \<open>lcos_calculate\<close> returns a result, its four
  component fields add up to the levelized cost per MWh (capex + opex + fuel + financing
  for LCOE, capex + opex + replacement + financing for LCOS), exactly over the reals; and
  when the lifetime discounted energy or throughput is not positive, the total and all
  four components are 0.
\<close>

theorem component_breakdown_sums_to_total:
  "(lcoe_calculate i = Inr r \<longrightarrow>
      LCOEResult.capex_component r + LCOEResult.opex_component r + fuel_component r
        + LCOEResult.financing_component r = lcoe_usd_per_mwh r
      \<and> (total_energy_mwh r \<le> 0 \<longrightarrow>
           lcoe_usd_per_mwh r = 0 \<and> LCOEResult.capex_component r = 0
           \<and> LCOEResult.opex_component r = 0 \<and> fuel_component r = 0
           \<and> LCOEResult.financing_component r = 0))
   \<and> (lcos_calculate j = Inr s \<longrightarrow>
      capex_component s + opex_component s + replacement_component s
        + financing_component s = lcos_usd_per_mwh s
      \<and> (total_throughput_mwh s \<le> 0 \<longrightarrow>
           lcos_usd_per_mwh s = 0 \<and> capex_component s = 0 \<and> opex_component s = 0
           \<and> replacement_component s = 0 \<and> financing_component s = 0))"
  using lcoe_components_sum [of i r] lcoe_components_degenerate [of i r]
    lcos_components_sum [of j s] lcos_components_degenerate [of j s]
  by blast

text \<open>
  The engines return on the dataclass defaults, where the sums hold, and on a zero
  lifetime, where the degenerate case applies.
\<close>

theorem component_breakdown_sums_to_total_witness:
  "(\<exists>r s. lcoe_calculate default_lcoe_inputs = Inr r
        \<and> lcos_calculate default_lcos_inputs = Inr s
        \<and> LCOEResult.capex_component r + LCOEResult.opex_component r + fuel_component r
            + LCOEResult.financing_component r = lcoe_usd_per_mwh r
        \<and> capex_component s + opex_component s + replacement_component s
            + financing_component s = lcos_usd_per_mwh s)
   \<and> (\<exists>r. lcoe_calculate (default_lcoe_inputs\<lparr>system_lifetime_years := 0\<rparr>) = Inr r
        \<and> total_energy_mwh r \<le> 0
        \<and> lcoe_usd_per_mwh r = 0 \<and> LCOEResult.capex_component r = 0
        \<and> LCOEResult.opex_component r = 0 \<and> fuel_component r = 0
        \<and> LCOEResult.financing_component r = 0)"
proof -
  obtain r where r: "lcoe_calculate default_lcoe_inputs = Inr r"
    using lcoe_calculate_ok [of default_lcoe_inputs] default_lcoe_ok by auto
  obtain s where s: "lcos_calculate default_lcos_inputs = Inr s"
    using default_lcos_ok by blast
  let ?z = "default_lcoe_inputs\<lparr>system_lifetime_years := 0\<rparr>"
  have "system_size_kw ?z \<noteq> 0" "system_lifetime_years ?z \<le> 0"
    by (simp_all add: default_lcoe_inputs_def)
  then obtain r0 where r0: "lcoe_calculate ?z = Inr r0" "total_energy_mwh r0 = 0"
    using lcoe_calculate_nonpos_lifetime [of ?z] by blast
  have "total_energy_mwh r0 \<le> 0" using r0(2) by simp
  with r s r0(1) show ?thesis
    using component_breakdown_sums_to_total [of default_lcoe_inputs r default_lcos_inputs s]
      component_breakdown_sums_to_total [of ?z r0 default_lcos_inputs s]
    by blast
qed

subsection \<open>Lifetime checks of the LCOE engine\<close>




text \<open>
  C3. For every LCOEInputs with a positive system size and a lifetime of 0 years, the
  engine returns a result (the zero lifetime energy is guarded, nothing is raised) in which
  the cost per MWh, the cost per kWh and the four components are all 0.
\<close>

theorem zero_lifetime_yields_zero_cost:
  assumes "system_size_kw i > 0" and "system_lifetime_years i = 0"
  shows "\<exists>r. lcoe_calculate i = Inr r \<and> lcoe_usd_per_mwh r = 0 \<and> lcoe_usd_per_kwh r = 0
           \<and> LCOEResult.capex_component r = 0 \<and> LCOEResult.opex_component r = 0
           \<and> fuel_component r = 0 \<and> LCOEResult.financing_component r = 0"
  using lcoe_calculate_nonpos_lifetime [of i] assms by auto

theorem zero_lifetime_yields_zero_cost_witness:
  "system_size_kw (default_lcoe_inputs\<lparr>system_lifetime_years := 0\<rparr>) > 0
   \<and> system_lifetime_years (default_lcoe_inputs\<lparr>system_lifetime_years := 0\<rparr>) = 0
   \<and> (\<exists>r. lcoe_calculate (default_lcoe_inputs\<lparr>system_lifetime_years := 0\<rparr>) = Inr r
          \<and> lcoe_usd_per_mwh r = 0 \<and> lcoe_usd_per_kwh r = 0
          \<and> LCOEResult.capex_component r = 0 \<and> LCOEResult.opex_component r = 0
          \<and> fuel_component r = 0 \<and> LCOEResult.financing_component r = 0)"
proof -
  let ?z = "default_lcoe_inputs\<lparr>system_lifetime_years := 0\<rparr>"
  have z: "system_size_kw ?z > 0" "system_lifetime_years ?z = 0"
    by (simp_all add: default_lcoe_inputs_def)
  show ?thesis using zero_lifetime_yields_zero_cost [OF z] z by blast
qed



subsection \<open>Degradation models\<close>

text \<open>
  C6, as stated, fails for the exponential variant when the annual rate exceeds 1: the
  base \<open>1 - rate\<close> is negative and the factor alternates in sign. With a rate of 2 the
  factor is -1 in year 1 and 1 in year 2.
\<close>

theorem degradation_monotone_counterexample:
  "performance_factor \<lparr> annual_degradation_rate = 2, degradation_type = ''exponential'',
                         step_years = [], step_rates = [] \<rparr> 1 = Inr (- 1)
   \<and> performance_factor \<lparr> annual_degradation_rate = 2, degradation_type = ''exponential'',
                           step_years = [], step_rates = [] \<rparr> (1 + 1) = Inr 1
   \<and> \<not> ((1::real) \<le> - 1)"
  by (simp add: performance_factor_def py_pow_def)

text \<open>
  C6, amended. For the linear variant with an annual rate above 0, and for the
  exponential variant with an annual rate above 0 and at most 1, the performance factor of
  year + 1 is at most that of year, for every year from 0 on.
\<close>

theorem degradation_monotone:
  assumes "degradation_type m = ''linear''
           \<or> (degradation_type m = ''exponential'' \<and> annual_degradation_rate m \<le> 1)"
    and "annual_degradation_rate m > 0" and "year \<ge> 0"
  shows "\<exists>a b. performance_factor m year = Inr a \<and> performance_factor m (year + 1) = Inr b
           \<and> b \<le> a"
proof -
  from assms(1) show ?thesis
  proof
    assume lin: "degradation_type m = ''linear''"
    have "real_of_int year * annual_degradation_rate m
            \<le> (real_of_int year + 1) * annual_degradation_rate m"
      using assms(2) by (simp add: mult_right_mono)
    then show ?thesis
      using lin by (simp add: performance_factor_def)
  next
    assume ex: "degradation_type m = ''exponential'' \<and> annual_degradation_rate m \<le> 1"
    let ?x = "1 - annual_degradation_rate m"
    have x: "0 \<le> ?x" "?x \<le> 1" using ex assms(2) by simp_all
    have n: "nat (year + 1) = Suc (nat year)" using assms(3) by simp
    have "?x ^ Suc (nat year) \<le> ?x ^ nat year"
      using x by (intro power_decreasing) simp_all
    then show ?thesis
      using ex assms(3) by (simp add: performance_factor_def py_pow_def n)
  qed
qed

theorem degradation_monotone_witness:
  "(\<exists>a b. performance_factor default_degradation 3 = Inr a
        \<and> performance_factor default_degradation (3 + 1) = Inr b \<and> b \<le> a)
   \<and> (\<exists>a b. performance_factor (default_degradation\<lparr>degradation_type := ''exponential''\<rparr>) 3
               = Inr a
        \<and> performance_factor (default_degradation\<lparr>degradation_type := ''exponential''\<rparr>) (3 + 1)
               = Inr b
        \<and> b \<le> a)"
proof -
  let ?e = "default_degradation\<lparr>degradation_type := ''exponential''\<rparr>"
  have l: "degradation_type default_degradation = ''linear''
           \<or> (degradation_type default_degradation = ''exponential''
               \<and> annual_degradation_rate default_degradation \<le> 1)"
    "annual_degradation_rate default_degradation > 0"
    by (simp_all add: default_degradation_def)
  have e: "degradation_type ?e = ''linear''
           \<or> (degradation_type ?e = ''exponential'' \<and> annual_degradation_rate ?e \<le> 1)"
    "annual_degradation_rate ?e > 0"
    by (simp_all add: default_degradation_def)
  have y: "(3::int) \<ge> 0" by simp
  show ?thesis
    using degradation_monotone [OF l y] degradation_monotone [OF e y] by blast
qed

text \<open>
  C9. For a model of the step variant, \<open>performance_factor\<close> raises IndexError at every
  year that reaches a trigger year whose index has no rate; so when \<open>step_rates\<close> is
  shorter than \<open>step_years\<close> such a year exists, and the function returns a factor for
  every year exactly when \<open>step_rates\<close> is at least as long as \<open>step_years\<close>.
\<close>

theorem step_performance_factor_partial:
  assumes step: "degradation_type m = ''step''"
  shows "(\<forall>i year. length (step_rates m) \<le> i \<and> i < length (step_years m)
                     \<and> step_years m ! i \<le> year
                   \<longrightarrow> performance_factor m year = Inl IndexError)
         \<and> (length (step_rates m) < length (step_years m)
                \<longrightarrow> (\<exists>year. performance_factor m year = Inl IndexError))
         \<and> ((\<forall>year. \<exists>f. performance_factor m year = Inr f)
                \<longleftrightarrow> length (step_years m) \<le> length (step_rates m))"
proof -
  have pf: "performance_factor m year = step_loop (step_rates m) year 0 (step_years m) 1" for year
    using step by (simp add: performance_factor_def)
  have A: "performance_factor m year = Inl IndexError"
    if "length (step_rates m) \<le> i" "i < length (step_years m)" "step_years m ! i \<le> year"
    for i year
    unfolding pf using that by (intro step_loop_index_error [where k = i]) simp_all
  have B: "\<exists>year. performance_factor m year = Inl IndexError"
    if "length (step_rates m) < length (step_years m)"
    using A [of "length (step_rates m)" "step_years m ! length (step_rates m)"] that by auto
  have C: "\<exists>f. performance_factor m year = Inr f"
    if "length (step_years m) \<le> length (step_rates m)" for year
    unfolding pf using that by (intro step_loop_ok) simp
  have D: "length (step_years m) \<le> length (step_rates m)"
    if tot: "\<forall>year. \<exists>f. performance_factor m year = Inr f"
  proof (rule ccontr)
    assume "\<not> length (step_years m) \<le> length (step_rates m)"
    then obtain year where "performance_factor m year = Inl IndexError"
      using B by auto
    with tot show False by (metis sum.distinct(1))
  qed
  show ?thesis using A B C D by blast
qed

text \<open>
  A step model with the trigger years 5 and 10 and the single rate 0.1: year 10 reaches
  the second trigger, which has no rate.
\<close>

theorem step_performance_factor_partial_witness:
  "degradation_type \<lparr> annual_degradation_rate = 0.005, degradation_type = ''step'',
                       step_years = [5, 10], step_rates = [0.1] \<rparr> = ''step''
   \<and> performance_factor \<lparr> annual_degradation_rate = 0.005, degradation_type = ''step'',
                           step_years = [5, 10], step_rates = [0.1] \<rparr> 10 = Inl IndexError"
proof -
  let ?m = "\<lparr> annual_degradation_rate = 0.005, degradation_type = ''step'',
              step_years = [5, 10], step_rates = [0.1::real] \<rparr>"
  have s: "degradation_type ?m = ''step''" by simp
  have "length (step_rates ?m) \<le> 1 \<and> 1 < length (step_years ?m) \<and> step_years ?m ! 1 \<le> 10"
    by simp
  then show ?thesis
    using step_performance_factor_partial [OF s] s by blast
qed

subsection \<open>Storage: performance metrics and replacement\<close>

text \<open>
  C4, as stated, fails: the three metric functions use the effective lifetime as it is,
  not its floor. On the dataclass defaults (4000 cycles at 365 per year, 15 calendar years)
  the effective lifetime is 4000 / 365 years, the engine reports 4000 effective cycles, and
  the floored lifetime of 10 years would give 3650.
\<close>

theorem floored_metrics_counterexample:
  "map_sum id effective_cycles (lcos_calculate default_lcos_inputs) = Inr 4000
   \<and> spec_effective_cycles default_lcos_inputs = 3650"
proof -
  obtain r where r: "lcos_calculate default_lcos_inputs = Inr r"
    using default_lcos_ok by blast
  have "effective_cycles r = 4000"
    using lcos_metrics [OF r] by (simp add: default_lcos_inputs_def)
  moreover have "spec_effective_cycles default_lcos_inputs = 3650"
    by (simp add: spec_effective_cycles_def spec_effective_lifetime_def default_lcos_inputs_def)
  ultimately show ?thesis using r by simp
qed

text \<open>
  C4, amended. Writing effective_lifetime = min(cycle_life / cycles_per_year,
  calendar_life_years), every result of the LCOS engine reports the metrics at the
  unfloored lifetime: effective_cycles = effective_lifetime * cycles_per_year;
  end_of_life_capacity = max(0.5, 1 - effective_lifetime * capacity_fade_per_year);
  average_efficiency = the mean of round_trip_efficiency and max(0.7, round_trip_efficiency
  - effective_lifetime * cycles_per_year * efficiency_fade_per_cycle).
\<close>

theorem performance_metrics_unfloored:
  assumes "lcos_calculate i = Inr r"
  shows "effective_cycles r = spec_effective_lifetime i * cycles_per_year i
     \<and> end_of_life_capacity r
         = max 0.5 (1 - spec_effective_lifetime i * capacity_fade_per_year i)
     \<and> average_efficiency r
         = (round_trip_efficiency i
            + max 0.7 (round_trip_efficiency i
                - spec_effective_lifetime i * cycles_per_year i
                    * efficiency_fade_per_cycle i)) / 2"
  using lcos_metrics [OF assms] by (simp add: spec_effective_lifetime_def)

theorem performance_metrics_unfloored_witness:
  "\<exists>r. lcos_calculate default_lcos_inputs = Inr r
      \<and> effective_cycles r
           = spec_effective_lifetime default_lcos_inputs * cycles_per_year default_lcos_inputs
      \<and> end_of_life_capacity r
           = max 0.5 (1 - spec_effective_lifetime default_lcos_inputs
                           * capacity_fade_per_year default_lcos_inputs)"
proof -
  obtain r where r: "lcos_calculate default_lcos_inputs = Inr r"
    using default_lcos_ok by blast
  show ?thesis using performance_metrics_unfloored [OF r] r by blast
qed






section \<open>Properties of the analyzers\<close>

subsection \<open>The copy steps write to new objects only\<close>


lemma unchanged_refl [simp]: "unchanged h h"
  by (simp add: unchanged_def)
























lemma npv_series_loop_nonneg:
  assumes "0 \<le> a" "0 \<le> 1 + ir" "0 < 1 + dr"
  shows "0 \<le> acc \<Longrightarrow> \<exists>v. npv_series_loop a dr ir ys acc = Inr v \<and> 0 \<le> v"
proof (induction ys arbitrary: acc)
  case Nil
  then show ?case by simp
next
  case (Cons y ys)
  have "0 \<le> a * (1 + ir) ^ y / (1 + dr) ^ y" using assms by simp
  with Cons.prems have "0 \<le> acc + a * (1 + ir) ^ y / (1 + dr) ^ y" by simp
  from Cons.IH [OF this] show ?case using assms(3) by (simp add: Let_def)
qed

lemma calculate_npv_series_nonneg:
  assumes "0 \<le> a" "0 \<le> 1 + ir" "0 < 1 + dr"
  shows "\<exists>v. calculate_npv_series a years dr ir = Inr v \<and> 0 \<le> v"
  unfolding calculate_npv_series_def
  using npv_series_loop_nonneg [OF assms, of 0] by simp

lemma lifetime_energy_loop_linear_pos:
  assumes "degradation_type m = ''linear''" "0 \<le> annual" "0 < 1 + dr"
  shows "0 < acc \<Longrightarrow> \<exists>v. lifetime_energy_loop m annual dr ys acc = Inr v \<and> 0 < v"
proof (induction ys arbitrary: acc)
  case Nil
  then show ?case by simp
next
  case (Cons y ys)
  let ?pf = "max 0 (1 - (real_of_int (int y) * annual_degradation_rate m))"
  have pf: "performance_factor m (int y) = Inr ?pf"
    using assms(1) by (simp add: performance_factor_def)
  have "0 \<le> annual * ?pf / (1 + dr) ^ y" using assms by simp
  with Cons.prems have "0 < acc + annual * ?pf / (1 + dr) ^ y" by simp
  from Cons.IH [OF this] show ?case using assms(3) pf by (simp add: Let_def)
qed

lemma lcoe_lifetime_energy_linear_pos:
  assumes lin: "degradation_type (degradation i) = ''linear''"
    and a: "0 < a" and dr: "0 < 1 + effective_discount_rate (LCOEInputs.financing i)"
    and life: "1 \<le> system_lifetime_years i"
  shows "\<exists>v. lcoe_calculate_lifetime_energy i a = Inr v \<and> 0 < v"
proof -
  have rng: "py_range (system_lifetime_years i) = 0 # [Suc 0..<nat (system_lifetime_years i)]"
    using life by (simp add: py_range_def upt_conv_Cons)
  have pf: "performance_factor (degradation i) 0 = Inr 1"
    using lin by (simp add: performance_factor_def)
  have "\<exists>v. lifetime_energy_loop (degradation i) a
               (effective_discount_rate (LCOEInputs.financing i))
               [Suc 0..<nat (system_lifetime_years i)] a = Inr v \<and> 0 < v"
    using lin _ dr a by (rule lifetime_energy_loop_linear_pos) (use a in simp)
  then show ?thesis
    by (simp add: lcoe_calculate_lifetime_energy_def rng pf Let_def)
qed

lemma default_lcoe_positive:
  assumes r: "lcoe_calculate default_lcoe_inputs = Inr r"
  shows "0 < lcoe_usd_per_kwh r"
proof -
  let ?i = default_lcoe_inputs
  have vals: "lcoe_calculate_total_capex ?i = 105000" "lcoe_calculate_annual_energy ?i = 219"
    "effective_discount_rate (LCOEInputs.financing ?i) = 0.07 * (1 - 0.21 * 0.6)"
    "inflation_rate (LCOEInputs.financing ?i) = 0.025"
    "system_lifetime_years ?i = 25" "degradation_type (degradation ?i) = ''linear''"
    by (simp_all add: default_lcoe_inputs_def default_financing_def default_degradation_def
        lcoe_calculate_total_capex_def lcoe_calculate_annual_energy_def
        effective_discount_rate_def)
  from r obtain e opex fuel fin where
    e: "lcoe_calculate_lifetime_energy ?i (lcoe_calculate_annual_energy ?i) = Inr e"
    and opex: "lcoe_calculate_opex_npv ?i = Inr opex"
    and fuel: "lcoe_calculate_fuel_npv ?i (lcoe_calculate_annual_energy ?i) = Inr fuel"
    and fin: "lcoe_calculate_financing_cost ?i (lcoe_calculate_total_capex ?i) = Inr fin"
    and val: "lcoe_usd_per_kwh r
               = (if e > 0 then (lcoe_calculate_total_capex ?i + opex + fuel + fin) / e else 0)
                   / 1000"
    unfolding lcoe_calculate_def Let_def bind_err_eq_Inr by auto
  have "\<exists>v. lcoe_calculate_lifetime_energy ?i 219 = Inr v \<and> 0 < v"
    by (rule lcoe_lifetime_energy_linear_pos) (simp_all add: vals)
  with e have epos: "0 < e" by (simp add: vals)
  have "\<exists>v. lcoe_calculate_opex_npv ?i = Inr v \<and> 0 \<le> v"
    unfolding lcoe_calculate_opex_npv_def Let_def vals
    by (rule calculate_npv_series_nonneg) (simp_all add: default_lcoe_inputs_def)
  with opex have o: "0 \<le> opex" by simp
  have f: "fuel = 0"
    using fuel by (simp add: lcoe_calculate_fuel_npv_def default_lcoe_inputs_def)
  have "\<exists>v. lcoe_calculate_financing_cost ?i 105000 = Inr v \<and> 0 \<le> v"
    unfolding lcoe_calculate_financing_cost_def Let_def vals
    by (rule calculate_npv_series_nonneg)
       (simp_all add: default_lcoe_inputs_def default_financing_def)
  with fin have fi: "0 \<le> fin" by (simp add: vals)
  have "0 < (105000 + opex + fuel + fin) / e"
    using epos o f fi by simp
  with val epos show ?thesis by (simp add: vals)
qed

lemma default_lcoe_engine:
  "\<exists>bo. lcoe_engine default_lcoe_store 0 = Inr bo \<and> bo \<noteq> 0"
proof -
  have load: "load_lcoe_inputs default_lcoe_store 0 = Inr default_lcoe_inputs"
    by (simp add: load_lcoe_inputs_def default_lcoe_store_def default_lcoe_inputs_def
      inputs_num_def inputs_int_def inputs_ref_def num_val_def load_degradation_def
      load_financing_def nested_num_def default_degradation_def default_financing_def)
  obtain r where r: "lcoe_calculate default_lcoe_inputs = Inr r"
    using lcoe_calculate_ok [of default_lcoe_inputs] default_lcoe_ok by auto
  have "0 < lcoe_usd_per_kwh r" using r by (rule default_lcoe_positive)
  then show ?thesis by (simp add: lcoe_engine_def load r)
qed

lemma sensitivity_metrics_equal_bounds:
  assumes "high_val = low_val" "base_val \<noteq> 0" "base_out \<noteq> 0"
  shows "sensitivity_metrics base_val base_out low_val high_val low_out high_out
           = Inl ZeroDivisionError"
  using assms by (simp add: sensitivity_metrics_def)

lemma sensitivity_step_zero_variation:
  assumes "bind_err (get_nested_attribute h (InputsObj b) p) as_number = Inr bv"
    and "bv \<noteq> 0" and "bo \<noteq> 0"
  shows "\<exists>e. fst (sensitivity_step calc h b bo 0 p) = Inl e"
  using assms
  by (auto simp: sensitivity_step_def Let_def sensitivity_metrics_equal_bounds
      split: sum.splits prod.splits)

lemma c7:
  "fst (analyze_lcoe_sensitivity default_lcoe_store 0 (Some [''capex_per_kw'']) 0) = Inr []"
proof -
  obtain bo where bo: "lcoe_engine default_lcoe_store 0 = Inr bo" "bo \<noteq> 0"
    using default_lcoe_engine by blast
  have get: "bind_err (get_nested_attribute default_lcoe_store (InputsObj 0) ''capex_per_kw'')
               as_number = Inr 1500"
    by (simp add: get_nested_attribute_def py_getattr_def default_lcoe_store_def
        as_number_def num_val_def)
  obtain e where "fst (sensitivity_step lcoe_engine default_lcoe_store 0 bo 0 ''capex_per_kw'')
                    = Inl e"
    using sensitivity_step_zero_variation [OF get _ bo(2)] by auto
  then obtain h' where
    "sensitivity_step lcoe_engine default_lcoe_store 0 bo 0 ''capex_per_kw'' = (Inl e, h')"
    by (cases "sensitivity_step lcoe_engine default_lcoe_store 0 bo 0 ''capex_per_kw''") auto
  then show ?thesis
    by (simp add: analyze_lcoe_sensitivity_def analyze_sensitivity_def bo(1))
qed


subsection \<open>Inputs are never mutated\<close>




subsection \<open>Identical low and high values\<close>

lemma sensitivity_step_zero_division:
  assumes "bind_err (get_nested_attribute h (InputsObj b) p) as_number = Inr bv"
    and "bv \<noteq> 0" and "bo \<noteq> 0"
    and "copy_inputs_with_param h b p (PyFloat bv) = (Inr a1, h1)"
    and "calc h1 a1 = Inr lo"
    and "copy_inputs_with_param h1 b p (PyFloat bv) = (Inr a2, h2)"
    and "calc h2 a2 = Inr ho"
  shows "sensitivity_step calc h b bo 0 p = (Inl ZeroDivisionError, h2)"
  using assms
  by (simp add: sensitivity_step_def Let_def sensitivity_metrics_equal_bounds)

lemma load_default_lcoe_copies:
  "fst (copy_inputs_with_param default_lcoe_store 0 ''capex_per_kw'' (PyFloat 1500)) = Inr 1
   \<and> load_lcoe_inputs
        (snd (copy_inputs_with_param default_lcoe_store 0 ''capex_per_kw'' (PyFloat 1500))) 1
       = Inr default_lcoe_inputs
   \<and> fst (copy_inputs_with_param
          (snd (copy_inputs_with_param default_lcoe_store 0 ''capex_per_kw'' (PyFloat 1500)))
          0 ''capex_per_kw'' (PyFloat 1500)) = Inr 2
   \<and> load_lcoe_inputs
        (snd (copy_inputs_with_param
          (snd (copy_inputs_with_param default_lcoe_store 0 ''capex_per_kw'' (PyFloat 1500)))
          0 ''capex_per_kw'' (PyFloat 1500))) 2
       = Inr default_lcoe_inputs"
  by (simp add: copy_inputs_with_param_def deepcopy_def default_lcoe_store_def
      py_getattr_def py_setattr_def Let_def load_lcoe_inputs_def default_lcoe_inputs_def
      inputs_num_def inputs_int_def inputs_ref_def num_val_def load_degradation_def
      load_financing_def nested_num_def default_degradation_def default_financing_def)

text \<open>
  C7 fails on the code. Take the default LCOEInputs, the single parameter
  \<open>capex_per_kw\<close> and a variation of 0: the low and the high value are both 1500. The
  slope is guarded, but the elasticity divides by \<open>(high_value - low_value) / base_value\<close>,
  which is 0 while the base value and the base LCOE are not: the body raises
  ZeroDivisionError, the parameter is skipped and the analysis returns no record.
\<close>

theorem zero_variation_drops_record:
  "fst (analyze_lcoe_sensitivity default_lcoe_store 0 (Some [''capex_per_kw'']) 0) = Inr []
   \<and> (\<exists>base_lcoe. lcoe_engine default_lcoe_store 0 = Inr base_lcoe \<and> base_lcoe \<noteq> 0
         \<and> fst (sensitivity_step lcoe_engine default_lcoe_store 0 base_lcoe 0 ''capex_per_kw'')
             = Inl ZeroDivisionError)"
proof -
  obtain bo where bo: "lcoe_engine default_lcoe_store 0 = Inr bo" "bo \<noteq> 0"
    using default_lcoe_engine by blast
  have get: "bind_err (get_nested_attribute default_lcoe_store (InputsObj 0) ''capex_per_kw'')
               as_number = Inr 1500"
    by (simp add: get_nested_attribute_def py_getattr_def default_lcoe_store_def
        as_number_def num_val_def)
  have load: "load_lcoe_inputs default_lcoe_store 0 = Inr default_lcoe_inputs"
    by (simp add: load_lcoe_inputs_def default_lcoe_store_def default_lcoe_inputs_def
      inputs_num_def inputs_int_def inputs_ref_def num_val_def load_degradation_def
      load_financing_def nested_num_def default_degradation_def default_financing_def)
  have eng: "lcoe_engine h a = Inr bo" if "load_lcoe_inputs h a = Inr default_lcoe_inputs" for h a
    using bo(1) that by (simp add: lcoe_engine_def load)
  let ?c1 = "copy_inputs_with_param default_lcoe_store 0 ''capex_per_kw'' (PyFloat 1500)"
  let ?c2 = "copy_inputs_with_param (snd ?c1) 0 ''capex_per_kw'' (PyFloat 1500)"
  have c1: "?c1 = (Inr 1, snd ?c1)" and c2: "?c2 = (Inr 2, snd ?c2)"
    using load_default_lcoe_copies by (simp_all add: prod_eq_iff)
  have e1: "lcoe_engine (snd ?c1) 1 = Inr bo" and e2: "lcoe_engine (snd ?c2) 2 = Inr bo"
    using load_default_lcoe_copies by (simp_all add: eng)
  have step: "sensitivity_step lcoe_engine default_lcoe_store 0 bo 0 ''capex_per_kw''
                = (Inl ZeroDivisionError, snd ?c2)"
    using get _ bo(2) c1 e1 c2 e2 by (rule sensitivity_step_zero_division) simp
  then have "fst (analyze_lcoe_sensitivity default_lcoe_store 0 (Some [''capex_per_kw'']) 0)
               = Inr []"
    by (simp add: analyze_lcoe_sensitivity_def analyze_sensitivity_def bo(1))
  with bo step show ?thesis by auto
qed

end
